theory Spec2Isabelle
  imports Main
begin

section \<open>Python strings\<close>

text \<open>
  A Python \<open>str\<close> is modelled as a \<open>string\<close> whose characters are the code points
  below 256. \<open>str.strip()\<close> removes the characters for which \<open>str.isspace()\<close> holds;
  below 256 these are the code points listed in \<open>is_space\<close>.
\<close>

definition is_space :: "char \<Rightarrow> bool" where
  "is_space c = (c \<in> set [CHR 0x09, CHR 0x0A, CHR 0x0B, CHR 0x0C, CHR 0x0D,
                           CHR 0x1C, CHR 0x1D, CHR 0x1E, CHR 0x1F, CHR 0x20,
                           CHR 0x85, CHR 0xA0])"

definition strip :: "string \<Rightarrow> string" where
  "strip s = rev (dropWhile is_space (rev (dropWhile is_space s)))"

definition lower_letters :: string where
  "lower_letters = ''abcdefghijklmnopqrstuvwxyz''"

definition upper_letters :: string where
  "upper_letters = ''ABCDEFGHIJKLMNOPQRSTUVWXYZ''"

definition digits :: string where
  "digits = ''0123456789''"

text \<open>
  \<open>str.upper()\<close> and \<open>str.lower()\<close> on the letters A to Z. The source applies
  \<open>upper\<close> to a character of \<open>"kqrbn"\<close> only, and compares the result of \<open>lower\<close>
  with \<open>"o-o"\<close> only, so nothing outside these letters matters.
\<close>

definition upper_char :: "char \<Rightarrow> char" where
  "upper_char c = (case map_of (zip lower_letters upper_letters) c of Some u \<Rightarrow> u | None \<Rightarrow> c)"

definition lower_char :: "char \<Rightarrow> char" where
  "lower_char c = (case map_of (zip upper_letters lower_letters) c of Some l \<Rightarrow> l | None \<Rightarrow> c)"

definition quote :: string where
  "quote = [CHR 0x27]"

definition newline :: string where
  "newline = [CHR 0x0A]"

text \<open>\<open>str(n)\<close> for an integer: decimal digits, with a minus sign when negative.\<close>

fun str_nat :: "nat \<Rightarrow> string" where
  "str_nat n = (if n < 10 then [digits ! n] else str_nat (n div 10) @ [digits ! (n mod 10)])"

declare str_nat.simps [simp del]

definition str_int :: "int \<Rightarrow> string" where
  "str_int i = (if i < 0 then ''-'' @ str_nat (nat (- i)) else str_nat (nat i))"

text \<open>\<open>sep.join(lines)\<close>.\<close>

fun join :: "string \<Rightarrow> string list \<Rightarrow> string" where
  "join sep [] = []"
| "join sep [l] = l"
| "join sep (l # ls) = l @ sep @ join sep ls"

section \<open>Regular expressions of move\_validator.py\<close>

text \<open>
  The five patterns of \<open>MoveValidator\<close> use literals, character classes, \<open>?\<close> and \<open>*\<close>,
  anchored by \<open>^\<close> and \<open>$\<close>. \<open>pattern.match(move)\<close> on such a pattern succeeds exactly
  when the whole string is in the pattern's language (\<open>$\<close> also matches before a final
  newline, which a stripped string never has). Membership is decided by derivatives.
\<close>

datatype rx = Nomatch | Empty | Cls string | Then rx rx | Either rx rx | Many rx

fun nullable :: "rx \<Rightarrow> bool" where
  "nullable Nomatch = False"
| "nullable Empty = True"
| "nullable (Cls cs) = False"
| "nullable (Then r s) = (nullable r \<and> nullable s)"
| "nullable (Either r s) = (nullable r \<or> nullable s)"
| "nullable (Many r) = True"

fun deriv :: "char \<Rightarrow> rx \<Rightarrow> rx" where
  "deriv c Nomatch = Nomatch"
| "deriv c Empty = Nomatch"
| "deriv c (Cls cs) = (if c \<in> set cs then Empty else Nomatch)"
| "deriv c (Then r s) =
     (if nullable r then Either (Then (deriv c r) s) (deriv c s) else Then (deriv c r) s)"
| "deriv c (Either r s) = Either (deriv c r) (deriv c s)"
| "deriv c (Many r) = Then (deriv c r) (Many r)"

fun rx_match :: "rx \<Rightarrow> string \<Rightarrow> bool" where
  "rx_match r [] = nullable r"
| "rx_match r (c # cs) = rx_match (deriv c r) cs"

definition lit :: "string \<Rightarrow> rx" where
  "lit s = foldr (\<lambda>c r. Then (Cls [c]) r) s Empty"

definition opt :: "rx \<Rightarrow> rx" where
  "opt r = Either r Empty"

definition seq :: "rx list \<Rightarrow> rx" where
  "seq rs = foldr Then rs Empty"

text \<open>The check and annotation suffix \<open>[+#]?[!?]*\<close> that ends every pattern.\<close>

definition suffix :: "rx list" where
  "suffix = [opt (Cls ''+#''), Many (Cls ''!?'')]"

definition CASTLING :: rx where
  "CASTLING = seq ([lit ''O-O'', opt (lit ''-O'')] @ suffix)"

definition PAWN_PROMOTION :: rx where
  "PAWN_PROMOTION =
     seq ([opt (Cls ''abcdefgh''), opt (Cls ''x''), Cls ''abcdefgh'', Cls ''18'', Cls ''='',
           Cls ''QRBN''] @ suffix)"

definition PAWN_CAPTURE :: rx where
  "PAWN_CAPTURE = seq ([Cls ''abcdefgh'', Cls ''x'', Cls ''abcdefgh'', Cls ''12345678''] @ suffix)"

definition PAWN_MOVE :: rx where
  "PAWN_MOVE = seq ([Cls ''abcdefgh'', Cls ''12345678''] @ suffix)"

definition PIECE_MOVE :: rx where
  "PIECE_MOVE =
     seq ([Cls ''KQRBN'', opt (Cls ''abcdefgh''), opt (Cls ''12345678''), opt (Cls ''x''),
           Cls ''abcdefgh'', Cls ''12345678''] @ suffix)"

definition patterns :: "rx list" where
  "patterns = [CASTLING, PAWN_PROMOTION, PAWN_CAPTURE, PAWN_MOVE, PIECE_MOVE]"

section \<open>move\_validator.py\<close>

definition generate_error_message :: "string \<Rightarrow> string" where
  "generate_error_message move =
     (if take 3 (map lower_char move) = ''o-o''
      then ''Invalid castling notation: use '' @ quote @ ''O-O'' @ quote @ '' (kingside) or ''
           @ quote @ ''O-O-O'' @ quote @ '' (queenside) with capital letter O''
      else if CHR ''='' \<in> set move
      then ''Invalid promotion format: examples - e8=Q, axb8=N, d1=R+''
      else if CHR ''x'' \<in> set move \<and> length move \<ge> 3
      then ''Invalid capture notation: examples - exd5, Nxf6, Bxc4''
      else ''Invalid move format: '' @ quote @ move @ quote @ newline
           @ ''Valid examples:'' @ newline
           @ ''  - Pawn moves: e4, d5'' @ newline
           @ ''  - Piece moves: Nf3, Bb5, Qd4'' @ newline
           @ ''  - Captures: exd5, Nxf6'' @ newline
           @ ''  - Castling: O-O, O-O-O'' @ newline
           @ ''  - Promotion: e8=Q, axb8=N'' @ newline
           @ ''  - Check/Checkmate: Nf7+, Qh5#'')"

text \<open>\<open>re.search(r"=([A-Z])", move)\<close>: the letter of the leftmost \<open>=\<close> followed by A to Z.\<close>

fun promo_search :: "string \<Rightarrow> char option" where
  "promo_search (c # d # cs) =
     (if c = CHR ''='' \<and> d \<in> set upper_letters then Some d else promo_search (d # cs))"
| "promo_search cs = None"

text \<open>
  \<open>validate_move\<close> returns the pair \<open>(is_valid, error_message)\<close>. The two \<open>for\<close> loops
  return at the first offending character of \<open>re.findall\<close>'s result, which is \<open>find\<close>
  on the filtered string.
\<close>

definition validate_move :: "string \<Rightarrow> bool \<times> string" where
  "validate_move raw =
     (if raw = [] \<or> strip raw = [] then (False, ''Move cannot be empty'')
      else
        let move = strip raw in
        if hd move \<in> set ''kqrbn'' \<and> \<not> (length move = 2 \<and> move ! 1 \<in> set ''12345678'')
        then (False, ''Piece notation must be uppercase (use '' @ quote
                       @ [upper_char (hd move)] @ tl move @ quote
                       @ '' instead of '' @ quote @ move @ quote @ '')'')
        else
          case find (\<lambda>rank. rank \<notin> set ''12345678'') (filter (\<lambda>c. c \<in> set digits) move) of
            Some rank \<Rightarrow>
              (False, ''Invalid rank '' @ quote @ [rank] @ quote @ '': ranks must be 1-8'')
          | None \<Rightarrow>
         (case find (\<lambda>f. f \<notin> set ''abcdefgh'' \<and> f \<notin> set ''xkqrbn'')
                    (filter (\<lambda>c. c \<in> set lower_letters) move) of
            Some f \<Rightarrow> (False, ''Invalid character '' @ quote @ [f] @ quote @ '' in move'')
          | None \<Rightarrow>
          if CHR ''='' \<in> set move \<and> promo_search move = None
          then (False, ''Invalid promotion format: use '' @ quote @ ''=Q'' @ quote @ '', ''
                        @ quote @ ''=R'' @ quote @ '', '' @ quote @ ''=B'' @ quote @ '', or ''
                        @ quote @ ''=N'' @ quote)
          else if CHR ''='' \<in> set move \<and> the (promo_search move) \<notin> set ''QRBN''
          then (False, ''Invalid promotion piece '' @ quote @ [the (promo_search move)] @ quote
                        @ '': can only promote to Q, R, B, or N'')
          else if list_ex (\<lambda>pattern. rx_match pattern move) patterns then (True, '''')
          else (False, generate_error_message move)))"

section \<open>The chess library\<close>

text \<open>
  chess\_game.py leaves the rules of chess to the python-chess library, which is not part
  of the repository. The library enters the model as a parameter: the initial position
  of \<open>chess.Board()\<close>, the side to move (\<open>True\<close> is \<open>chess.WHITE\<close>), \<open>parse_san\<close>
  (\<open>Inl\<close> carries the text of the \<open>IllegalMoveError\<close>, \<open>InvalidMoveError\<close> or
  \<open>AmbiguousMoveError\<close> it raises) and the position a move leads to.
\<close>

record ('p, 'm) engine =
  initial :: 'p
  turn :: "'p \<Rightarrow> bool"
  parse_san :: "'p \<Rightarrow> string \<Rightarrow> string + 'm"
  apply_move :: "'p \<Rightarrow> 'm \<Rightarrow> 'p"

text \<open>
  A \<open>chess.Board\<close> is the current position together with the stack that \<open>push\<close> fills
  and \<open>pop\<close> empties: each entry holds the move pushed and the position before it.
  \<open>pop\<close> on a board without moves raises \<open>IndexError\<close>.
\<close>

record ('p, 'm) chess_board =
  position :: 'p
  stack :: "('m \<times> 'p) list"

datatype py_error = IndexError | ValueError string

definition new_board :: "('p, 'm) engine \<Rightarrow> ('p, 'm) chess_board" where
  "new_board E = \<lparr>position = initial E, stack = []\<rparr>"

definition push :: "('p, 'm) engine \<Rightarrow> ('p, 'm) chess_board \<Rightarrow> 'm \<Rightarrow> ('p, 'm) chess_board" where
  "push E b m = \<lparr>position = apply_move E (position b) m, stack = (m, position b) # stack b\<rparr>"

definition pop :: "('p, 'm) chess_board \<Rightarrow> py_error + ('p, 'm) chess_board" where
  "pop b = (case stack b of
              [] \<Rightarrow> Inl IndexError
            | (m, p) # rest \<Rightarrow> Inr \<lparr>position = p, stack = rest\<rparr>)"

definition push_san ::
  "('p, 'm) engine \<Rightarrow> ('p, 'm) chess_board \<Rightarrow> string \<Rightarrow> string + ('p, 'm) chess_board" where
  "push_san E b san = (case parse_san E (position b) san of
                         Inl e \<Rightarrow> Inl e
                       | Inr m \<Rightarrow> Inr (push E b m))"

section \<open>chess\_game.py\<close>

type_synonym move_pair = "string \<times> string option"

record ('p, 'm) chess_game =
  metadata :: "string \<rightharpoonup> string"
  moves :: "move_pair list"
  result :: string
  board :: "('p, 'm) chess_board"
  pending_white_move :: "string option"

definition new_game :: "('p, 'm) engine \<Rightarrow> (string \<rightharpoonup> string) \<Rightarrow> ('p, 'm) chess_game" where
  "new_game E md =
     \<lparr>metadata = md, moves = [],
      result = (case md ''Result'' of Some r \<Rightarrow> r | None \<Rightarrow> ''*''),
      board = new_board E, pending_white_move = None\<rparr>"

definition add_move ::
  "string option \<Rightarrow> string option \<Rightarrow> ('p, 'm) chess_game \<Rightarrow> ('p, 'm) chess_game" where
  "add_move white_move black_move s =
     (case white_move of
        None \<Rightarrow> s
      | Some w \<Rightarrow>
         (case black_move of
            Some b \<Rightarrow> s\<lparr>moves := moves s @ [(w, Some b)]\<rparr>
          | None \<Rightarrow> s\<lparr>moves := moves s @ [(w, None)]\<rparr>))"

text \<open>
  The operations that return \<open>(success, message)\<close> return that pair together with the
  session as they leave it.
\<close>

definition validate_and_add_move ::
  "('p, 'm) engine \<Rightarrow> ('p, 'm) chess_game \<Rightarrow> string \<Rightarrow> string
     \<Rightarrow> (bool \<times> string) \<times> ('p, 'm) chess_game" where
  "validate_and_add_move E s move color =
     (let (is_valid_format, error_msg) = validate_move move in
      if \<not> is_valid_format then ((False, error_msg), s)
      else
        let expected_white_turn = turn E (position (board s));
            is_white_move = (color = ''white'')
        in
        if expected_white_turn \<noteq> is_white_move
        then ((False, ''It'' @ quote @ ''s ''
                      @ (if expected_white_turn then ''White'' else ''Black'')
                      @ quote @ ''s turn to move''), s)
        else
          (case parse_san E (position (board s)) move of
             Inl e \<Rightarrow> ((False, ''Illegal move: '' @ e), s)
           | Inr chess_move \<Rightarrow>
               let s1 = s\<lparr>board := push E (board s) chess_move\<rparr> in
               if color = ''white''
               then ((True, []), s1\<lparr>pending_white_move := Some move\<rparr>)
               else
                 (case pending_white_move s1 of
                    Some w \<Rightarrow>
                      ((True, []),
                       (add_move (Some w) (Some move) s1)\<lparr>pending_white_move := None\<rparr>)
                  | None \<Rightarrow>
                      ((False, ''Cannot add black move without a white move first''), s1))))"

definition finalize_pending_move :: "('p, 'm) chess_game \<Rightarrow> ('p, 'm) chess_game" where
  "finalize_pending_move s =
     (case pending_white_move s of
        Some w \<Rightarrow> (add_move (Some w) None s)\<lparr>pending_white_move := None\<rparr>
      | None \<Rightarrow> s)"

text \<open>Python's truth value of an \<open>Optional[str]\<close>: \<open>None\<close> and the empty string are false.\<close>

definition truthy :: "string option \<Rightarrow> bool" where
  "truthy b = (b \<noteq> None \<and> b \<noteq> Some [])"

text \<open>The replay loop of \<open>edit_move\<close>; \<open>Inl\<close> is one of the three caught exceptions.\<close>

fun replay ::
  "('p, 'm) engine \<Rightarrow> ('p, 'm) chess_board \<Rightarrow> move_pair list
     \<Rightarrow> string + ('p, 'm) chess_board" where
  "replay E temp_board [] = Inr temp_board"
| "replay E temp_board ((w_move, b_move) # rest) =
     (case push_san E temp_board w_move of
        Inl e \<Rightarrow> Inl e
      | Inr b1 \<Rightarrow>
          if truthy b_move
          then (case push_san E b1 (the b_move) of
                  Inl e \<Rightarrow> Inl e
                | Inr b2 \<Rightarrow> replay E b2 rest)
          else replay E b1 rest)"

definition edit_move ::
  "('p, 'm) engine \<Rightarrow> ('p, 'm) chess_game \<Rightarrow> int \<Rightarrow> string \<Rightarrow> string
     \<Rightarrow> (bool \<times> string) \<times> ('p, 'm) chess_game" where
  "edit_move E s move_number color new_move =
     (let (is_valid, error_msg) = validate_move new_move in
      if \<not> is_valid then ((False, error_msg), s)
      else if move_number < 1 \<or> move_number > int (length (moves s))
      then ((False, ''Invalid move number: '' @ str_int move_number), s)
      else
        let idx = nat (move_number - 1);
            (white_move, black_move) = moves s ! idx
        in
        if color = ''black'' \<and> black_move = None
        then ((False, ''This move pair has no black move to edit''), s)
        else
          let temp_moves =
                (if color = ''white''
                 then (moves s)[idx := (new_move, black_move)]
                 else (moves s)[idx := (white_move, Some new_move)])
          in
          (case replay E (new_board E) temp_moves of
             Inl e \<Rightarrow> ((False, ''This edit would create an illegal position''), s)
           | Inr temp_board \<Rightarrow>
               ((True, ''Move updated successfully''),
                s\<lparr>moves := temp_moves, board := temp_board\<rparr>)))"

text \<open>
  \<open>undo_last_move\<close> returns \<open>True\<close> or \<open>False\<close>, or raises the \<open>IndexError\<close> of
  \<open>board.pop()\<close>, which it does not catch.
\<close>

definition undo_last_move ::
  "('p, 'm) chess_game \<Rightarrow> py_error + (bool \<times> ('p, 'm) chess_game)" where
  "undo_last_move s =
     (if pending_white_move s \<noteq> None
      then (case pop (board s) of
              Inl e \<Rightarrow> Inl e
            | Inr b \<Rightarrow> Inr (True, s\<lparr>board := b, pending_white_move := None\<rparr>))
      else if moves s = [] then Inr (False, s)
      else
        let (white_move, black_move) = last (moves s) in
        if black_move \<noteq> None
        then (case pop (board s) of
                Inl e \<Rightarrow> Inl e
              | Inr b \<Rightarrow>
                  Inr (True, s\<lparr>board := b, pending_white_move := Some white_move,
                                moves := butlast ((moves s)[length (moves s) - 1 :=
                                                            (white_move, None)])\<rparr>))
        else (case pop (board s) of
                Inl e \<Rightarrow> Inl e
              | Inr b \<Rightarrow> Inr (True, s\<lparr>board := b, moves := butlast (moves s)\<rparr>)))"

definition get_move_count :: "('p, 'm) chess_game \<Rightarrow> nat" where
  "get_move_count s = length (moves s)"

definition get_moves_list :: "('p, 'm) chess_game \<Rightarrow> move_pair list" where
  "get_moves_list s = moves s"

definition has_pending_white_move :: "('p, 'm) chess_game \<Rightarrow> bool" where
  "has_pending_white_move s = (pending_white_move s \<noteq> None)"

definition valid_results :: "string list" where
  "valid_results = [''1-0'', ''0-1'', ''1/2-1/2'', ''*'']"

text \<open>\<open>str(valid_results)\<close>, as the message of the \<open>ValueError\<close> prints it.\<close>

definition valid_results_repr :: string where
  "valid_results_repr =
     ''['' @ join '', '' (map (\<lambda>r. quote @ r @ quote) valid_results) @ '']''"

definition set_result :: "('p, 'm) chess_game \<Rightarrow> string \<Rightarrow> py_error + ('p, 'm) chess_game" where
  "set_result s r =
     (if r \<in> set valid_results
      then Inr (s\<lparr>result := r, metadata := (metadata s)(''Result'' \<mapsto> r)\<rparr>)
      else Inl (ValueError (''Invalid result: '' @ r @ ''. Must be one of ''
                            @ valid_results_repr)))"

section \<open>pgn\_exporter.py\<close>

text \<open>The loop of \<open>format_moves\<close> over \<open>enumerate(moves, 1)\<close>, appending to \<open>lines\<close>.\<close>

fun format_loop :: "nat \<Rightarrow> move_pair list \<Rightarrow> string list \<Rightarrow> string list" where
  "format_loop i [] lines = lines"
| "format_loop i ((white_move, black_move) # rest) lines =
     format_loop (Suc i) rest
       (lines @ [if truthy black_move
                 then str_nat i @ ''. '' @ white_move @ '' '' @ the black_move @ '' ''
                 else str_nat i @ ''. '' @ white_move @ '' ''])"

definition format_moves :: "move_pair list \<Rightarrow> string \<Rightarrow> string" where
  "format_moves ms res =
     (if ms = [] then res else join newline (format_loop 1 ms [] @ [res]))"

section \<open>What the specification compares the code with\<close>

text \<open>
  The SAN moves a session records, in the order played: the halves of every record of
  \<open>moves\<close>, then the pending white move when there is one.
\<close>

definition recorded_sans :: "('p, 'm) chess_game \<Rightarrow> string list" where
  "recorded_sans s =
     concat (map (\<lambda>(w, b). w # (case b of Some x \<Rightarrow> [x] | None \<Rightarrow> [])) (moves s))
     @ (case pending_white_move s of Some w \<Rightarrow> [w] | None \<Rightarrow> [])"

fun replay_sans ::
  "('p, 'm) engine \<Rightarrow> ('p, 'm) chess_board \<Rightarrow> string list \<Rightarrow> string + ('p, 'm) chess_board" where
  "replay_sans E b [] = Inr b"
| "replay_sans E b (san # sans) =
     (case push_san E b san of Inl e \<Rightarrow> Inl e | Inr b1 \<Rightarrow> replay_sans E b1 sans)"

text \<open>
  The rendering the specification gives for the exporter: record \<open>i\<close> as
  \<open>"<i>. <whiteSan> <blackSan> "\<close>, or \<open>"<i>. <whiteSan> "\<close> when the black half is
  absent, the records joined by newlines and the result as the last line.
\<close>

definition render_record :: "nat \<Rightarrow> move_pair \<Rightarrow> string" where
  "render_record i r =
     (case snd r of
        Some b \<Rightarrow> str_nat i @ ''. '' @ fst r @ '' '' @ b @ '' ''
      | None \<Rightarrow> str_nat i @ ''. '' @ fst r @ '' '')"

definition rendered_text :: "move_pair list \<Rightarrow> string \<Rightarrow> string" where
  "rendered_text ms res =
     (if ms = [] then res
      else join newline (map (\<lambda>(i, r). render_record i r) (enumerate 1 ms) @ [res]))"

text \<open>
  A record whose black half is the empty string, read as a record without black half.
  Two properties of a session that the specification states, as predicates: at most the
  last record lacks its black half; undoing after a proposed move gives back the records,
  the pending white move and the position from before the proposal.
\<close>

definition empty_as_absent :: "move_pair \<Rightarrow> move_pair" where
  "empty_as_absent r = (fst r, if snd r = Some [] then None else snd r)"

definition only_last_incomplete :: "move_pair list \<Rightarrow> bool" where
  "only_last_incomplete ms = list_all (\<lambda>r. snd r \<noteq> None) (butlast ms)"

definition undo_restores ::
  "('p, 'm) engine \<Rightarrow> ('p, 'm) chess_game \<Rightarrow> string \<Rightarrow> string \<Rightarrow> bool" where
  "undo_restores E s san color =
     (case undo_last_move (snd (validate_and_add_move E s san color)) of
        Inl e \<Rightarrow> False
      | Inr (undone, s') \<Rightarrow>
          moves s' = moves s \<and> pending_white_move s' = pending_white_move s
          \<and> position (board s') = position (board s))"

section \<open>Sessions reachable through the public operations\<close>

text \<open>
  The sessions that a caller can produce: a new game, and from a session the one that a
  call of \<open>validate_and_add_move\<close>, \<open>edit_move\<close> or \<open>finalize_pending_move\<close> leaves
  (whether it reports success or failure), and the one that \<open>undo_last_move\<close> or
  \<open>set_result\<close> leaves when it returns. When one of the latter two raises, the session
  is as it was before the call.
\<close>

inductive reachable :: "('p, 'm) engine \<Rightarrow> ('p, 'm) chess_game \<Rightarrow> bool" for E where
  created: "reachable E (new_game E md)"
| proposed: "reachable E s \<Longrightarrow> reachable E (snd (validate_and_add_move E s san color))"
| undone: "reachable E s \<Longrightarrow> undo_last_move s = Inr (ok, s') \<Longrightarrow> reachable E s'"
| edited: "reachable E s \<Longrightarrow> reachable E (snd (edit_move E s n color san))"
| finalized: "reachable E s \<Longrightarrow> reachable E (finalize_pending_move s)"
| result_set: "reachable E s \<Longrightarrow> set_result s r = Inr s' \<Longrightarrow> reachable E s'"

text \<open>
  The number of half-moves in the records, and the relation between records and board
  that every reachable session keeps: the board holds all recorded half-moves but at most
  one, and no recorded black half is the empty string.
\<close>

definition half_moves :: "move_pair list \<Rightarrow> nat" where
  "half_moves ms = sum_list (map (\<lambda>r. if snd r = None then 1 else 2) ms)"

definition in_step :: "('p, 'm) chess_game \<Rightarrow> bool" where
  "in_step s =
     (half_moves (moves s) + (if pending_white_move s = None then 0 else 1)
        \<le> Suc (length (stack (board s)))
      \<and> list_all (\<lambda>r. snd r \<noteq> Some []) (moves s))"

section \<open>A fragment of the rules of chess\<close>

text \<open>
  For the examples the library parameter is instantiated with a fragment of chess: a
  position is the list of SAN moves played from the initial position, White moves at
  even length, and \<open>book\<close> lists, for a few opening positions, moves that python-chess
  accepts there. Every move outside the list is refused; the examples rely on a refusal
  only where the move is illegal in chess.
\<close>

definition book :: "(string list \<times> string list) list" where
  "book =
     [([], [''e4'', ''d4'']),
      ([''e4''], [''e5'']),
      ([''d4''], [''e5'']),
      ([''e4'', ''e5''], [''Nf3'']),
      ([''d4'', ''e5''], [''Nf3'']),
      ([''e4'', ''e5'', ''Nf3''], [''Nc6''])]"

definition book_engine :: "(string list, string) engine" where
  "book_engine =
     \<lparr>initial = [],
      turn = (\<lambda>p. even (length p)),
      parse_san = (\<lambda>p san.
        if san \<in> set (case map_of book p of Some ms \<Rightarrow> ms | None \<Rightarrow> [])
        then Inr san else Inl (''illegal san: '' @ quote @ san @ quote)),
      apply_move = (\<lambda>p m. p @ [m])\<rparr>"

text \<open>
  The board of the fragment after the given SAN moves were pushed, and the session with
  the given records, pending white move and board (no metadata, result \<open>*\<close>).
\<close>

definition played :: "string list \<Rightarrow> (string list, string) chess_board" where
  "played sans = foldl (push book_engine) (new_board book_engine) sans"

definition session ::
  "move_pair list \<Rightarrow> string option \<Rightarrow> string list \<Rightarrow> (string list, string) chess_game" where
  "session ms pw sans =
     \<lparr>metadata = Map.empty, moves = ms, result = ''*'', board = played sans,
      pending_white_move = pw\<rparr>"

section \<open>Auxiliary facts\<close>

lemmas rx_defs = patterns_def CASTLING_def PAWN_PROMOTION_def PAWN_CAPTURE_def PAWN_MOVE_def
  PIECE_MOVE_def seq_def opt_def lit_def suffix_def

lemmas vm_defs = validate_move_def strip_def is_space_def digits_def lower_letters_def
  upper_letters_def upper_char_def

lemmas book_defs = session_def played_def book_engine_def book_def new_board_def push_def
  pop_def push_san_def add_move_def truthy_def

lemma pop_push: "pop (push E b m) = Inr b"
  by (simp add: pop_def push_def)

subsection \<open>Sessions and boards of the fragment\<close>

lemma session_sel:
  "metadata (session ms pw sans) = Map.empty"
  "moves (session ms pw sans) = ms"
  "result (session ms pw sans) = ''*''"
  "board (session ms pw sans) = played sans"
  "pending_white_move (session ms pw sans) = pw"
  by (simp_all add: session_def)

lemma position_foldl_push:
  "position (foldl (push book_engine) b sans) = position b @ sans"
  by (induction sans arbitrary: b) (simp_all add: push_def book_engine_def)

lemma position_played: "position (played sans) = sans"
  unfolding played_def position_foldl_push by (simp add: new_board_def book_engine_def)

lemma played_snoc: "played (sans @ [san]) = push book_engine (played sans) san"
  by (simp add: played_def)

lemma pop_played_snoc: "pop (played (sans @ [san])) = Inr (played sans)"
  by (simp add: played_snoc pop_push)

subsection \<open>The validator on the moves of the examples\<close>

lemma validate_e4: "validate_move ''e4'' = (True, [])"
  by (simp add: vm_defs rx_defs)

lemma validate_e5: "validate_move ''e5'' = (True, [])"
  by (simp add: vm_defs rx_defs)

lemma validate_d4: "validate_move ''d4'' = (True, [])"
  by (simp add: vm_defs rx_defs)

lemma validate_Nf3: "validate_move ''Nf3'' = (True, [])"
  by (simp add: vm_defs rx_defs)

lemma validate_Nc6: "validate_move ''Nc6'' = (True, [])"
  by (simp add: vm_defs rx_defs)

lemma validate_Ke2: "validate_move ''Ke2'' = (True, [])"
  by (simp add: vm_defs rx_defs)

lemma validate_e9:
  "validate_move ''e9'' = (False, ''Invalid rank '' @ quote @ ''9'' @ quote @ '': ranks must be 1-8'')"
  by (simp add: vm_defs rx_defs)

subsection \<open>Single calls on sessions of the fragment\<close>

lemma new_game_session: "new_game book_engine Map.empty = session [] None []"
  by (simp add: new_game_def book_defs)

lemma white_e4:
  "validate_and_add_move book_engine (session [] None []) ''e4'' ''white''
     = ((True, []), session [] (Some ''e4'') [''e4''])"
  by (simp add: validate_and_add_move_def validate_e4 book_defs)

lemma black_e5:
  "validate_and_add_move book_engine (session [] (Some ''e4'') [''e4'']) ''e5'' ''black''
     = ((True, []), session [(''e4'', Some ''e5'')] None [''e4'', ''e5''])"
  by (simp add: validate_and_add_move_def validate_e5 book_defs)

lemma white_Nf3:
  "validate_and_add_move book_engine (session [(''e4'', Some ''e5'')] None [''e4'', ''e5''])
       ''Nf3'' ''white''
     = ((True, []), session [(''e4'', Some ''e5'')] (Some ''Nf3'') [''e4'', ''e5'', ''Nf3''])"
  by (simp add: validate_and_add_move_def validate_Nf3 book_defs)

lemma edit_d4_while_pending:
  "edit_move book_engine
       (session [(''e4'', Some ''e5'')] (Some ''Nf3'') [''e4'', ''e5'', ''Nf3'']) 1 ''white'' ''d4''
     = ((True, ''Move updated successfully''),
        session [(''d4'', Some ''e5'')] (Some ''Nf3'') [''d4'', ''e5''])"
  by (simp add: edit_move_def validate_d4 book_defs)

lemma replay_after_edit:
  "replay_sans book_engine (new_board book_engine)
       (recorded_sans (session [(''d4'', Some ''e5'')] (Some ''Nf3'') [''d4'', ''e5'']))
     = Inr (played [''d4'', ''e5'', ''Nf3''])"
  by (simp add: recorded_sans_def book_defs)

lemma finalize_e4:
  "finalize_pending_move (session [] (Some ''e4'') [''e4'']) = session [(''e4'', None)] None [''e4'']"
  by (simp add: finalize_pending_move_def book_defs)

lemma black_e5_without_pending:
  "validate_and_add_move book_engine (session [(''e4'', None)] None [''e4'']) ''e5'' ''black''
     = ((False, ''Cannot add black move without a white move first''),
        session [(''e4'', None)] None [''e4'', ''e5''])"
  by (simp add: validate_and_add_move_def validate_e5 book_defs)

lemma white_Nf3_after_rejection:
  "validate_and_add_move book_engine (session [(''e4'', None)] None [''e4'', ''e5''])
       ''Nf3'' ''white''
     = ((True, []), session [(''e4'', None)] (Some ''Nf3'') [''e4'', ''e5'', ''Nf3''])"
  by (simp add: validate_and_add_move_def validate_Nf3 book_defs)

lemma black_Nc6_after_rejection:
  "validate_and_add_move book_engine
       (session [(''e4'', None)] (Some ''Nf3'') [''e4'', ''e5'', ''Nf3'']) ''Nc6'' ''black''
     = ((True, []),
        session [(''e4'', None), (''Nf3'', Some ''Nc6'')] None [''e4'', ''e5'', ''Nf3'', ''Nc6''])"
  by (simp add: validate_and_add_move_def validate_Nc6 book_defs)

lemma black_e9:
  "validate_and_add_move book_engine (session [] (Some ''e4'') [''e4'']) ''e9'' ''black''
     = ((False, ''Invalid rank '' @ quote @ ''9'' @ quote @ '': ranks must be 1-8''),
        session [] (Some ''e4'') [''e4''])"
  by (simp add: validate_and_add_move_def validate_e9)

lemma undo_e4:
  "undo_last_move (session [] (Some ''e4'') [''e4'']) = Inr (True, session [] None [])"
  by (simp add: undo_last_move_def book_defs)

lemma white_Nf3_again:
  "validate_and_add_move book_engine
       (session [(''d4'', Some ''e5'')] (Some ''Nf3'') [''d4'', ''e5'']) ''Nf3'' ''white''
     = ((True, []), session [(''d4'', Some ''e5'')] (Some ''Nf3'') [''d4'', ''e5'', ''Nf3''])"
  by (simp add: validate_and_add_move_def validate_Nf3 book_defs)

lemma undo_Nf3_again:
  "undo_last_move (session [(''d4'', Some ''e5'')] (Some ''Nf3'') [''d4'', ''e5'', ''Nf3''])
     = Inr (True, session [(''d4'', Some ''e5'')] None [''d4'', ''e5''])"
  by (simp add: undo_last_move_def book_defs)

lemma edit_Ke2_illegal:
  "edit_move book_engine (session [(''e4'', Some ''e5'')] None [''e4'', ''e5'']) 1 ''black'' ''Ke2''
     = ((False, ''This edit would create an illegal position''),
        session [(''e4'', Some ''e5'')] None [''e4'', ''e5''])"
  by (simp add: edit_move_def validate_Ke2 book_defs)

lemma edit_d4_legal:
  "edit_move book_engine (session [(''e4'', Some ''e5'')] None [''e4'', ''e5'']) 1 ''white'' ''d4''
     = ((True, ''Move updated successfully''),
        session [(''d4'', Some ''e5'')] None [''d4'', ''e5''])"
  by (simp add: edit_move_def validate_d4 book_defs)

lemma undo_e5:
  "undo_last_move (session [(''e4'', Some ''e5'')] None [''e4'', ''e5''])
     = Inr (True, session [] (Some ''e4'') [''e4''])"
  by (simp add: undo_last_move_def book_defs)

subsection \<open>Which calls touch the records\<close>

lemma white_keeps_moves: "moves (snd (validate_and_add_move E s san ''white'')) = moves s"
  by (simp add: validate_and_add_move_def Let_def split: prod.splits sum.splits)

lemma white_sets_pending:
  "fst (fst (validate_and_add_move E s san ''white'')) \<Longrightarrow>
   pending_white_move (snd (validate_and_add_move E s san ''white'')) = Some san"
  by (simp add: validate_and_add_move_def Let_def split: prod.splits sum.splits if_splits)

lemma append_only_by_black:
  "moves (snd (validate_and_add_move E t san color)) \<noteq> moves t \<Longrightarrow>
   fst (fst (validate_and_add_move E t san color)) \<and> color \<noteq> ''white'' \<and>
   (\<exists>w. pending_white_move t = Some w
        \<and> moves (snd (validate_and_add_move E t san color)) = moves t @ [(w, Some san)]
        \<and> pending_white_move (snd (validate_and_add_move E t san color)) = None)"
  by (auto simp: validate_and_add_move_def Let_def add_move_def
      split: prod.splits sum.splits if_splits option.splits)

lemma finalize_moves:
  "moves (finalize_pending_move u) =
     (case pending_white_move u of Some w \<Rightarrow> moves u @ [(w, None)] | None \<Rightarrow> moves u)
   \<and> pending_white_move (finalize_pending_move u) = None"
  by (simp add: finalize_pending_move_def add_move_def split: option.splits)

lemma edit_length: "length (moves (snd (edit_move E v n c e))) = length (moves v)"
  by (simp add: edit_move_def Let_def split: prod.splits sum.splits)

lemma set_result_moves:
  "(case set_result v r of Inl e \<Rightarrow> True | Inr v' \<Rightarrow> moves v' = moves v)"
  by (simp add: set_result_def)

lemma undo_never_appends:
  "(case undo_last_move v of Inl e \<Rightarrow> True
    | Inr (undone, v') \<Rightarrow> moves v' = moves v \<or> moves v' = butlast (moves v))"
  by (auto simp: undo_last_move_def Let_def butlast_list_update split: prod.splits sum.splits)

lemma undo_pair:
  "pending_white_move z = None \<and> moves z = ms @ [(w, Some b)] \<and> stack (board z) \<noteq> [] \<Longrightarrow>
   (\<exists>bd. pop (board z) = Inr bd \<and>
      undo_last_move z = Inr (True, z\<lparr>board := bd, pending_white_move := Some w, moves := ms\<rparr>))"
  by (cases "stack (board z)") (auto simp: undo_last_move_def pop_def)

subsection \<open>Failed proposals, undo after a proposal, edits, and the exporter's loop\<close>

lemma failed_proposal_effect:
  "\<not> fst (fst (validate_and_add_move E s san color)) \<Longrightarrow>
   snd (validate_and_add_move E s san color) = s
   \<or> (color \<noteq> ''white'' \<and> pending_white_move s = None \<and>
      (\<exists>m. parse_san E (position (board s)) san = Inr m
           \<and> snd (validate_and_add_move E s san color) = s\<lparr>board := push E (board s) m\<rparr>))"
  by (auto simp: validate_and_add_move_def Let_def
      split: prod.splits sum.splits if_splits option.splits)

lemma undo_after_success:
  assumes "fst (fst (validate_and_add_move E s san color))"
    and "color = ''white'' \<longrightarrow> pending_white_move s = None"
  shows "undo_last_move (snd (validate_and_add_move E s san color)) = Inr (True, s)"
  using assms
  by (auto simp: validate_and_add_move_def undo_last_move_def Let_def pop_push add_move_def
      split: prod.splits sum.splits if_splits option.splits)

lemma edit_failure_unchanged:
  "\<not> fst (fst (edit_move E s n color san)) \<Longrightarrow> snd (edit_move E s n color san) = s"
  by (auto simp: edit_move_def Let_def split: prod.splits sum.splits if_splits)

lemma edit_success_replayed:
  "fst (fst (edit_move E s n color san)) \<Longrightarrow>
   replay E (new_board E) (moves (snd (edit_move E s n color san)))
     = Inr (board (snd (edit_move E s n color san)))
   \<and> snd (edit_move E s n color san)
     = s\<lparr>moves := moves (snd (edit_move E s n color san)),
         board := board (snd (edit_move E s n color san))\<rparr>"
  by (auto simp: edit_move_def Let_def split: prod.splits sum.splits if_splits)

lemma format_loop_rendering:
  "format_loop i ms acc
     = acc @ map (\<lambda>(i, r). render_record i r) (enumerate i (map empty_as_absent ms))"
proof (induction ms arbitrary: i acc)
  case Nil
  then show ?case by simp
next
  case (Cons r ms)
  obtain w b where r: "r = (w, b)" by (cases r)
  have "format_loop i (r # ms) acc
          = format_loop (Suc i) ms (acc @ [render_record i (empty_as_absent (w, b))])"
    by (cases b) (simp_all add: r render_record_def truthy_def empty_as_absent_def)
  also have "\<dots> = (acc @ [render_record i (empty_as_absent (w, b))])
                   @ map (\<lambda>(i, r). render_record i r)
                       (enumerate (Suc i) (map empty_as_absent ms))"
    by (rule Cons.IH)
  finally show ?case by (simp add: r)
qed

subsection \<open>Records and board of a reachable session\<close>

lemma validate_move_nonempty: "validate_move raw = (True, e) \<Longrightarrow> raw \<noteq> []"
  by (auto simp: validate_move_def)

lemma half_moves_snoc:
  "half_moves (ms @ [r]) = half_moves ms + (if snd r = None then 1 else 2)"
  by (simp add: half_moves_def)

lemma in_step_new: "in_step (new_game E md)"
  by (simp add: in_step_def new_game_def new_board_def half_moves_def)

lemma in_step_propose:
  assumes "in_step s"
  shows "in_step (snd (validate_and_add_move E s san color))"
proof (cases "validate_move san")
  case (Pair ok e)
  show ?thesis
  proof (cases ok)
    case False
    with Pair assms show ?thesis by (simp add: validate_and_add_move_def)
  next
    case True
    with Pair have ne: "san \<noteq> []" by (auto dest: validate_move_nonempty)
    from assms ne Pair True show ?thesis
      by (auto simp: validate_and_add_move_def Let_def in_step_def push_def add_move_def
          half_moves_snoc split: sum.splits option.splits if_splits)
  qed
qed

lemma pop_stack: "pop b = Inr b' \<Longrightarrow> length (stack b) = Suc (length (stack b'))"
  by (auto simp: pop_def split: list.splits)

lemma in_step_undo:
  assumes "in_step s" and "undo_last_move s = Inr (ok, s')"
  shows "in_step s'"
proof (cases "pending_white_move s = None")
  case False
  with assms show ?thesis
    by (auto simp: undo_last_move_def in_step_def split: sum.splits dest!: pop_stack)
next
  case True
  show ?thesis
  proof (cases "moves s = []")
    case True
    with assms \<open>pending_white_move s = None\<close> show ?thesis
      by (auto simp: undo_last_move_def)
  next
    case False
    then obtain ms w b where ms: "moves s = ms @ [(w, b)]"
      by (metis append_butlast_last_id surj_pair)
    from assms True ms show ?thesis
      by (auto simp: undo_last_move_def in_step_def half_moves_snoc
          split: sum.splits if_splits dest!: pop_stack)
  qed
qed

lemma replay_stack:
  "replay E b ms = Inr b' \<Longrightarrow> list_all (\<lambda>r. snd r \<noteq> Some []) ms \<Longrightarrow>
   length (stack b') = length (stack b) + half_moves ms"
proof (induction ms arbitrary: b)
  case Nil
  then show ?case by (simp add: half_moves_def)
next
  case (Cons r ms)
  obtain w bl where r: "r = (w, bl)" by (cases r)
  from Cons.prems Cons.IH show ?case
    by (cases bl)
       (auto simp: r half_moves_def truthy_def push_san_def push_def
          split: sum.splits if_splits)
qed

lemma in_step_edit:
  assumes "in_step s"
  shows "in_step (snd (edit_move E s n color san))"
proof (cases "fst (fst (edit_move E s n color san))")
  case False
  then show ?thesis using assms by (simp add: edit_failure_unchanged)
next
  case True
  let ?s' = "snd (edit_move E s n color san)"
  from True have rep: "replay E (new_board E) (moves ?s') = Inr (board ?s')"
    and rest: "?s' = s\<lparr>moves := moves ?s', board := board ?s'\<rparr>"
    using edit_success_replayed [of E s n color san] by simp_all
  from rest have pend: "pending_white_move ?s' = pending_white_move s"
    by (metis chess_game.select_convs(5) chess_game.surjective chess_game.update_convs(2,4))
  have ne: "list_all (\<lambda>r. snd r \<noteq> Some []) (moves ?s')"
    using True assms
    by (auto simp: edit_move_def Let_def in_step_def list_all_length nth_list_update
        split: prod.splits sum.splits if_splits dest: validate_move_nonempty)
  from replay_stack [OF rep ne] have "length (stack (board ?s')) = half_moves (moves ?s')"
    by (simp add: new_board_def)
  with ne pend show ?thesis by (simp add: in_step_def)
qed

lemma in_step_finalize: "in_step s \<Longrightarrow> in_step (finalize_pending_move s)"
  by (auto simp: finalize_pending_move_def in_step_def add_move_def half_moves_snoc
      split: option.splits)

lemma in_step_set_result: "in_step s \<Longrightarrow> set_result s r = Inr s' \<Longrightarrow> in_step s'"
  by (auto simp: set_result_def in_step_def split: if_splits)

lemma reachable_in_step: "reachable E s \<Longrightarrow> in_step s"
  by (induction rule: reachable.induct)
     (auto intro: in_step_new in_step_propose in_step_undo in_step_edit in_step_finalize
        in_step_set_result)

lemma reachable_pair_on_board:
  assumes "reachable E z" and "pending_white_move z = None" and "moves z = ms @ [(w, Some b)]"
  shows "stack (board z) \<noteq> []"
  using reachable_in_step [OF assms(1)] assms(2,3)
  by (auto simp: in_step_def half_moves_snoc)

lemma reachable_undo_pair:
  assumes "reachable E z" and "pending_white_move z = None" and "moves z = ms @ [(w, Some b)]"
  shows "\<exists>bd. pop (board z) = Inr bd \<and>
           undo_last_move z
             = Inr (True, z\<lparr>board := bd, pending_white_move := Some w, moves := ms\<rparr>)"
  using undo_pair [of z ms w b] reachable_pair_on_board [OF assms] assms(2,3) by blast

lemma reachable_e4_e5:
  "reachable book_engine (session [(''e4'', Some ''e5'')] None [''e4'', ''e5''])"
proof -
  have start: "reachable book_engine (session [] None [])"
    using reachable.created [of book_engine Map.empty] by (simp add: new_game_session)
  from reachable.proposed [OF start, of "''e4''" "''white''"]
  have "reachable book_engine (session [] (Some ''e4'') [''e4''])"
    by (simp add: white_e4)
  from reachable.proposed [OF this, of "''e5''" "''black''"]
  show ?thesis by (simp add: black_e5)
qed

section \<open>The claims\<close>

text \<open>
  C1. After proposals, undos and edits that all succeed, the board is the replay of the
  recorded moves followed by the pending white move. The code breaks this: White plays
  e4, Black e5, White Nf3 (pending), then move 1 of White is edited to d4. All four calls
  succeed. \<open>edit_move\<close> replays the records only and installs that board, so the board
  stands after d4 e5 while the session records d4 e5 and the pending Nf3.
\<close>

theorem edit_move_forgets_pending_white_move:
  "new_game book_engine Map.empty = session [] None []
   \<and> validate_and_add_move book_engine (session [] None []) ''e4'' ''white''
       = ((True, []), session [] (Some ''e4'') [''e4''])
   \<and> validate_and_add_move book_engine (session [] (Some ''e4'') [''e4'']) ''e5'' ''black''
       = ((True, []), session [(''e4'', Some ''e5'')] None [''e4'', ''e5''])
   \<and> validate_and_add_move book_engine (session [(''e4'', Some ''e5'')] None [''e4'', ''e5''])
         ''Nf3'' ''white''
       = ((True, []), session [(''e4'', Some ''e5'')] (Some ''Nf3'') [''e4'', ''e5'', ''Nf3''])
   \<and> edit_move book_engine
         (session [(''e4'', Some ''e5'')] (Some ''Nf3'') [''e4'', ''e5'', ''Nf3''])
         1 ''white'' ''d4''
       = ((True, ''Move updated successfully''),
          session [(''d4'', Some ''e5'')] (Some ''Nf3'') [''d4'', ''e5''])
   \<and> replay_sans book_engine (new_board book_engine)
         (recorded_sans (session [(''d4'', Some ''e5'')] (Some ''Nf3'') [''d4'', ''e5'']))
       = Inr (played [''d4'', ''e5'', ''Nf3''])
   \<and> position (board (session [(''d4'', Some ''e5'')] (Some ''Nf3'') [''d4'', ''e5'']))
       \<noteq> position (played [''d4'', ''e5'', ''Nf3''])"
  by (simp add: new_game_session white_e4 black_e5 white_Nf3 edit_d4_while_pending
        replay_after_edit session_sel position_played)

text \<open>
  C2. A proposal that fails leaves the session as it was. The code breaks this for a black
  move without pending white move: after e4 by White and \<open>finalize_pending_move\<close>, the
  proposal of e5 for Black is refused, but the move was pushed on the board before the
  pending white move was looked at, and it stays there.
\<close>

theorem rejected_black_move_stays_on_board:
  "validate_and_add_move book_engine (new_game book_engine Map.empty) ''e4'' ''white''
       = ((True, []), session [] (Some ''e4'') [''e4''])
   \<and> finalize_pending_move (session [] (Some ''e4'') [''e4''])
       = session [(''e4'', None)] None [''e4'']
   \<and> validate_and_add_move book_engine (session [(''e4'', None)] None [''e4'']) ''e5'' ''black''
       = ((False, ''Cannot add black move without a white move first''),
          session [(''e4'', None)] None [''e4'', ''e5''])
   \<and> position (board (session [(''e4'', None)] None [''e4''])) = [''e4'']
   \<and> position (board (session [(''e4'', None)] None [''e4'', ''e5''])) = [''e4'', ''e5'']"
  by (simp add: new_game_session white_e4 finalize_e4 black_e5_without_pending
        session_sel position_played)

text \<open>
  C3. An edit that fails, for whatever reason, returns the session it was given; an edit
  that succeeds has replayed the whole edited list of records on a new board, and changes
  the records and the board only.
\<close>

theorem edit_move_atomic:
  "(\<not> fst (fst (edit_move E s n color san)) \<longrightarrow> snd (edit_move E s n color san) = s)
   \<and> (fst (fst (edit_move E s n color san)) \<longrightarrow>
        replay E (new_board E) (moves (snd (edit_move E s n color san)))
          = Inr (board (snd (edit_move E s n color san)))
        \<and> snd (edit_move E s n color san)
          = s\<lparr>moves := moves (snd (edit_move E s n color san)),
              board := board (snd (edit_move E s n color san))\<rparr>)"
  using edit_failure_unchanged [of E s n color san] edit_success_replayed [of E s n color san]
  by blast

theorem edit_move_atomic_witness:
  "\<not> fst (fst (edit_move book_engine (session [(''e4'', Some ''e5'')] None [''e4'', ''e5''])
                   1 ''black'' ''Ke2''))
   \<and> snd (edit_move book_engine (session [(''e4'', Some ''e5'')] None [''e4'', ''e5''])
             1 ''black'' ''Ke2'')
       = session [(''e4'', Some ''e5'')] None [''e4'', ''e5'']
   \<and> fst (fst (edit_move book_engine (session [(''e4'', Some ''e5'')] None [''e4'', ''e5''])
                 1 ''white'' ''d4''))
   \<and> replay book_engine (new_board book_engine) [(''d4'', Some ''e5'')]
       = Inr (played [''d4'', ''e5''])"
  using edit_move_atomic [of book_engine "session [(''e4'', Some ''e5'')] None [''e4'', ''e5'']"
                             1 "''black''" "''Ke2''"]
        edit_move_atomic [of book_engine "session [(''e4'', Some ''e5'')] None [''e4'', ''e5'']"
                             1 "''white''" "''d4''"]
  by (simp add: edit_Ke2_illegal edit_d4_legal session_sel)

text \<open>
  C4, as amended. When the proposal succeeds, and no white move was pending if the move
  proposed is White's, the undo that follows returns \<open>True\<close> and the session from before
  the proposal: the records, the pending white move and the whole board.
\<close>

theorem undo_inverts_successful_proposal:
  "fst (fst (validate_and_add_move E s san color)) \<Longrightarrow>
   (color = ''white'' \<longrightarrow> pending_white_move s = None) \<Longrightarrow>
   undo_last_move (snd (validate_and_add_move E s san color)) = Inr (True, s)
   \<and> undo_restores E s san color"
  by (simp add: undo_restores_def undo_after_success)

theorem undo_inverts_successful_proposal_witness:
  "fst (fst (validate_and_add_move book_engine (session [] None []) ''e4'' ''white''))
   \<and> pending_white_move (session [] None []) = None
   \<and> undo_last_move (session [] (Some ''e4'') [''e4'']) = Inr (True, session [] None [])
   \<and> undo_restores book_engine (session [] None []) ''e4'' ''white''"
  using undo_inverts_successful_proposal [of book_engine "session [] None []" "''e4''" "''white''"]
  by (simp add: white_e4 undo_e4 session_sel)

text \<open>
  C4 as stated fails in two ways. A proposal that is refused records nothing, so the undo
  after it takes back an earlier move: with e4 pending, the malformed e9 for Black is
  refused and the undo removes e4. And in the session that the edit of C1 leaves (board
  after d4 e5, Nf3 pending) the proposal of Nf3 for White succeeds and the undo clears
  the pending move that was there before.
\<close>

theorem undo_after_proposal_counterexample:
  "validate_and_add_move book_engine (session [] None []) ''e4'' ''white''
       = ((True, []), session [] (Some ''e4'') [''e4''])
   \<and> fst (validate_and_add_move book_engine (session [] (Some ''e4'') [''e4'']) ''e9'' ''black'')
       = (False, ''Invalid rank '' @ quote @ ''9'' @ quote @ '': ranks must be 1-8'')
   \<and> \<not> undo_restores book_engine (session [] (Some ''e4'') [''e4'']) ''e9'' ''black''
   \<and> fst (validate_and_add_move book_engine
             (session [(''d4'', Some ''e5'')] (Some ''Nf3'') [''d4'', ''e5'']) ''Nf3'' ''white'')
       = (True, [])
   \<and> \<not> undo_restores book_engine
           (session [(''d4'', Some ''e5'')] (Some ''Nf3'') [''d4'', ''e5'']) ''Nf3'' ''white''"
  by (simp add: undo_restores_def white_e4 black_e9 undo_e4 white_Nf3_again undo_Nf3_again
        session_sel)

text \<open>
  C5. Only the last record may lack its black half. The code breaks this through the
  defect of C2: after e4, \<open>finalize_pending_move\<close> and the refused e5 for Black, the
  board has White to move, so Nf3 for White and Nc6 for Black are accepted and a second
  record follows the incomplete first one.
\<close>

theorem incomplete_record_before_last:
  "validate_and_add_move book_engine (new_game book_engine Map.empty) ''e4'' ''white''
       = ((True, []), session [] (Some ''e4'') [''e4''])
   \<and> finalize_pending_move (session [] (Some ''e4'') [''e4''])
       = session [(''e4'', None)] None [''e4'']
   \<and> validate_and_add_move book_engine (session [(''e4'', None)] None [''e4'']) ''e5'' ''black''
       = ((False, ''Cannot add black move without a white move first''),
          session [(''e4'', None)] None [''e4'', ''e5''])
   \<and> validate_and_add_move book_engine (session [(''e4'', None)] None [''e4'', ''e5''])
         ''Nf3'' ''white''
       = ((True, []), session [(''e4'', None)] (Some ''Nf3'') [''e4'', ''e5'', ''Nf3''])
   \<and> validate_and_add_move book_engine
         (session [(''e4'', None)] (Some ''Nf3'') [''e4'', ''e5'', ''Nf3'']) ''Nc6'' ''black''
       = ((True, []),
          session [(''e4'', None), (''Nf3'', Some ''Nc6'')] None
            [''e4'', ''e5'', ''Nf3'', ''Nc6''])
   \<and> get_moves_list
         (session [(''e4'', None), (''Nf3'', Some ''Nc6'')] None [''e4'', ''e5'', ''Nf3'', ''Nc6''])
       = [(''e4'', None), (''Nf3'', Some ''Nc6'')]
   \<and> \<not> only_last_incomplete [(''e4'', None), (''Nf3'', Some ''Nc6'')]"
  by (simp add: new_game_session white_e4 finalize_e4 black_e5_without_pending
        white_Nf3_after_rejection black_Nc6_after_rejection get_moves_list_def session_sel
        only_last_incomplete_def)

text \<open>
  C6. A string of one of the five shapes passes the validator. The code breaks this for
  pawn moves from the b-file: the test for a lowercase piece letter takes the file letter
  b for a bishop unless the move is a bare square, so the capture bxc5 and the promotion
  b8=Q, which the patterns \<open>PAWN_CAPTURE\<close> and \<open>PAWN_PROMOTION\<close> match, are refused
  before the patterns are tried.
\<close>

theorem b_file_pawn_moves_refused:
  "rx_match PAWN_CAPTURE ''bxc5''
   \<and> validate_move ''bxc5''
       = (False, ''Piece notation must be uppercase (use '' @ quote @ ''Bxc5'' @ quote
                  @ '' instead of '' @ quote @ ''bxc5'' @ quote @ '')'')
   \<and> rx_match PAWN_PROMOTION ''b8=Q''
   \<and> validate_move ''b8=Q''
       = (False, ''Piece notation must be uppercase (use '' @ quote @ ''B8=Q'' @ quote
                  @ '' instead of '' @ quote @ ''b8=Q'' @ quote @ '')'')"
  by (simp add: vm_defs rx_defs)

text \<open>
  C7, as amended. \<open>set_result\<close> asks nothing of the session. Given one of 1-0, 0-1,
  1/2-1/2 and *, it stores the result in the session and under the key Result of the
  metadata and changes nothing else: every other key of the metadata, the records, the
  board and the pending white move stay as they were. Given any other string it raises
  \<open>ValueError\<close>, and no session is returned.
\<close>

theorem set_result_outcomes:
  "(r \<in> set [''1-0'', ''0-1'', ''1/2-1/2'', ''*''] \<longrightarrow>
      (\<exists>s'. set_result s r = Inr s' \<and> result s' = r \<and> metadata s' ''Result'' = Some r
            \<and> (\<forall>k. k \<noteq> ''Result'' \<longrightarrow> metadata s' k = metadata s k)
            \<and> moves s' = moves s \<and> board s' = board s
            \<and> pending_white_move s' = pending_white_move s))
   \<and> (r \<notin> set [''1-0'', ''0-1'', ''1/2-1/2'', ''*''] \<longrightarrow>
      (\<exists>msg. set_result s r = Inl (ValueError msg)))"
  by (simp add: set_result_def valid_results_def)

theorem set_result_outcomes_witness:
  "''1-0'' \<in> set [''1-0'', ''0-1'', ''1/2-1/2'', ''*'']
   \<and> (\<exists>s'. set_result (new_game book_engine [''Event'' \<mapsto> ''Test'']) ''1-0'' = Inr s'
         \<and> result s' = ''1-0'' \<and> metadata s' ''Result'' = Some ''1-0''
         \<and> metadata s' ''Event'' = Some ''Test'' \<and> moves s' = []
         \<and> board s' = new_board book_engine \<and> pending_white_move s' = None)
   \<and> ''2-0'' \<notin> set [''1-0'', ''0-1'', ''1/2-1/2'', ''*'']
   \<and> (\<exists>msg. set_result (new_game book_engine [''Event'' \<mapsto> ''Test'']) ''2-0''
               = Inl (ValueError msg))"
  using set_result_outcomes [of "''1-0''" "new_game book_engine [''Event'' \<mapsto> ''Test'']"]
        set_result_outcomes [of "''2-0''" "new_game book_engine [''Event'' \<mapsto> ''Test'']"]
  by (auto simp: new_game_def)

text \<open>
  C7 as stated fails: an invalid result string is answered by a raised \<open>ValueError\<close>,
  not by a returned error value.
\<close>

theorem set_result_raises:
  "set_result (session [] None []) ''invalid''
     = Inl (ValueError (''Invalid result: invalid. Must be one of ['' @ quote @ ''1-0'' @ quote
                        @ '', '' @ quote @ ''0-1'' @ quote @ '', '' @ quote @ ''1/2-1/2''
                        @ quote @ '', '' @ quote @ ''*'' @ quote @ '']''))"
  by (simp add: set_result_def valid_results_def valid_results_repr_def quote_def)

text \<open>
  C8. A move that, once stripped, begins with one of the lowercase letters k, q, r, n and
  is not that letter followed by a single rank digit is refused with the message that
  names the move with its first letter in upper case.
\<close>

theorem lowercase_piece_letter_message:
  assumes "strip raw = c # rest" and "c \<in> set ''kqrn''"
    and "\<not> (length rest = 1 \<and> hd rest \<in> set ''12345678'')"
  shows "validate_move raw =
           (False, ''Piece notation must be uppercase (use '' @ quote @ upper_char c # rest
                    @ quote @ '' instead of '' @ quote @ c # rest @ quote @ '')'')
         \<and> (c, upper_char c) \<in> set (zip ''kqrn'' ''KQRN'')"
proof -
  from assms(1) have ne: "raw \<noteq> []"
    by (auto simp: strip_def)
  have up: "(c, upper_char c) \<in> set (zip ''kqrn'' ''KQRN'')"
    using assms(2) by (auto simp: upper_char_def lower_letters_def upper_letters_def)
  have first: "hd (c # rest) \<in> set ''kqrbn''"
    using assms(2) by auto
  have not_square: "\<not> (length (c # rest) = 2 \<and> (c # rest) ! 1 \<in> set ''12345678'')"
    using assms(3) by (cases rest) auto
  show ?thesis
    using ne first not_square up unfolding validate_move_def assms(1) Let_def
    by simp
qed

theorem lowercase_piece_letter_message_witness:
  "validate_move ''nf3''
     = (False, ''Piece notation must be uppercase (use '' @ quote @ ''Nf3'' @ quote
                @ '' instead of '' @ quote @ ''nf3'' @ quote @ '')'')"
proof -
  have stripped: "strip ''nf3'' = CHR ''n'' # ''f3''"
    by (simp add: strip_def is_space_def)
  have upper: "upper_char CHR ''n'' = CHR ''N''"
    by (simp add: upper_char_def lower_letters_def upper_letters_def)
  show ?thesis
    using lowercase_piece_letter_message [OF stripped] by (simp add: upper)
qed

text \<open>
  C9, as amended. \<open>format_moves\<close> renders record \<open>i\<close> as \<open>"<i>. <whiteSan> <blackSan> "\<close>
  when its black half is present and not empty, and as \<open>"<i>. <whiteSan> "\<close> when the
  black half is absent or the empty string; it joins the records by newlines and ends
  with the result; an empty list renders as the result alone.
\<close>

theorem format_moves_rendering:
  "format_moves ms res = rendered_text (map empty_as_absent ms) res"
  using format_loop_rendering [of 1 ms "[]"]
  by (simp add: format_moves_def rendered_text_def)

text \<open>
  C9 as stated fails on a record whose black half is the empty string: the code tests the
  truth value of the black half and renders the white half alone, with one space where
  the claim's form has two.
\<close>

theorem format_moves_empty_black_half:
  "format_moves [(''e4'', Some [])] ''*'' = ''1. e4 '' @ newline @ ''*''
   \<and> rendered_text [(''e4'', Some [])] ''*'' = ''1. e4  '' @ newline @ ''*''
   \<and> format_moves [(''e4'', Some [])] ''*'' \<noteq> rendered_text [(''e4'', Some [])] ''*''"
  by (simp add: format_moves_def rendered_text_def render_record_def truthy_def
        enumerate_eq_zip newline_def str_nat.simps digits_def)

text \<open>
  C10. A white move that is accepted is kept in \<open>pending_white_move\<close> and the records, as
  \<open>get_moves_list\<close> and \<open>get_move_count\<close> show them, stay as they were. The records grow
  only by an accepted black move, which appends the pending white move with it, and by
  \<open>finalize_pending_move\<close>, which appends the pending white move without black half;
  an edit keeps their number, \<open>set_result\<close> keeps them, an undo keeps them or drops the
  last. In every reachable session in which nothing is pending and the last record is
  complete, the undo returns \<open>True\<close>, drops that record and makes its white move the
  pending one.
\<close>

theorem pending_white_move_not_recorded:
  "get_moves_list (snd (validate_and_add_move E s san ''white'')) = get_moves_list s
   \<and> get_move_count (snd (validate_and_add_move E s san ''white'')) = get_move_count s
   \<and> (fst (fst (validate_and_add_move E s san ''white'')) \<longrightarrow>
        pending_white_move (snd (validate_and_add_move E s san ''white'')) = Some san)
   \<and> (moves (snd (validate_and_add_move E t san' color)) \<noteq> moves t \<longrightarrow>
        fst (fst (validate_and_add_move E t san' color)) \<and> color \<noteq> ''white'' \<and>
        (\<exists>w. pending_white_move t = Some w
             \<and> moves (snd (validate_and_add_move E t san' color)) = moves t @ [(w, Some san')]
             \<and> pending_white_move (snd (validate_and_add_move E t san' color)) = None))
   \<and> moves (finalize_pending_move u)
       = (case pending_white_move u of Some w \<Rightarrow> moves u @ [(w, None)] | None \<Rightarrow> moves u)
   \<and> pending_white_move (finalize_pending_move u) = None
   \<and> length (moves (snd (edit_move E v n c e))) = length (moves v)
   \<and> (case set_result v r of Inl err \<Rightarrow> True | Inr v' \<Rightarrow> moves v' = moves v)
   \<and> (case undo_last_move v of Inl err \<Rightarrow> True
       | Inr (undone, v') \<Rightarrow> moves v' = moves v \<or> moves v' = butlast (moves v))
   \<and> (reachable E z \<and> pending_white_move z = None \<and> moves z = ms @ [(w, Some b)] \<longrightarrow>
        (\<exists>bd. pop (board z) = Inr bd \<and>
           undo_last_move z
             = Inr (True, z\<lparr>board := bd, pending_white_move := Some w, moves := ms\<rparr>)))"
  using white_keeps_moves [of E s san] white_sets_pending [of E s san]
        append_only_by_black [of E t san' color] finalize_moves [of u]
        edit_length [of E v n c e] set_result_moves [of v r] undo_never_appends [of v]
        reachable_undo_pair [of E z ms w b]
  by (simp only: get_moves_list_def get_move_count_def) blast

theorem pending_white_move_not_recorded_witness:
  "fst (fst (validate_and_add_move book_engine (session [] None []) ''e4'' ''white''))
   \<and> get_moves_list (snd (validate_and_add_move book_engine (session [] None []) ''e4'' ''white''))
       = get_moves_list (session [] None [])
   \<and> pending_white_move
         (snd (validate_and_add_move book_engine (session [] None []) ''e4'' ''white''))
       = Some ''e4''
   \<and> moves (snd (validate_and_add_move book_engine (session [] (Some ''e4'') [''e4''])
                   ''e5'' ''black''))
       \<noteq> moves (session [] (Some ''e4'') [''e4''])
   \<and> moves (snd (validate_and_add_move book_engine (session [] (Some ''e4'') [''e4''])
                   ''e5'' ''black''))
       = [(''e4'', Some ''e5'')]
   \<and> moves (finalize_pending_move (session [] (Some ''e4'') [''e4''])) = [(''e4'', None)]
   \<and> reachable book_engine (session [(''e4'', Some ''e5'')] None [''e4'', ''e5''])
   \<and> pending_white_move (session [(''e4'', Some ''e5'')] None [''e4'', ''e5'']) = None
   \<and> moves (session [(''e4'', Some ''e5'')] None [''e4'', ''e5'']) = [] @ [(''e4'', Some ''e5'')]
   \<and> undo_last_move (session [(''e4'', Some ''e5'')] None [''e4'', ''e5''])
       = Inr (True, session [] (Some ''e4'') [''e4''])"
  using pending_white_move_not_recorded
          [of book_engine "session [] None []" "''e4''"
              "session [] (Some ''e4'') [''e4'']" "''e5''" "''black''"
              "session [] (Some ''e4'') [''e4'']"
              "session [(''e4'', Some ''e5'')] None [''e4'', ''e5'']" 1 "''white''" "''d4''"
              "''1-0''"
              "session [(''e4'', Some ''e5'')] None [''e4'', ''e5'']" "[]" "''e4''" "''e5''"]
        reachable_e4_e5
  by (simp add: white_e4 black_e5 undo_e5 session_sel get_moves_list_def get_move_count_def)

end
